theory Spec2Isabelle
  imports Complex_Main
begin

section \<open>Python exceptions\<close>

text \<open>
  Every \<open>raise\<close> of the source is a value \<open>Inl e\<close> of a result type \<open>pyexc + 'a\<close>.
  An exception carries its class, the status code that \<open>JIRAError.status_code\<close>,
  \<open>GithubException.status\<close> and \<open>HTTPStatusError.response.status_code\<close> read (0 for the
  classes that have none) and the text \<open>str(e)\<close>.  \<open>CancelledError\<close> and
  \<open>KeyboardInterrupt\<close> derive from \<open>BaseException\<close> only, so \<open>except Exception\<close> does
  not catch them.  Logging is not modelled: no property below reads the log.
\<close>

datatype exc_class =
    JIRAError | GithubException | HTTPStatusError | RequestError | ConnectionError
  | AttributeError | ValueError | ZeroDivisionError | IndexError | KeyError | TypeError
  | RuntimeError | CancelledError | KeyboardInterrupt

datatype pyexc = PyExc (exc_class: exc_class) (status_code: nat) (exc_str: string)

fun isinstance_Exception :: "pyexc \<Rightarrow> bool" where
  "isinstance_Exception (PyExc c n s) = (c \<noteq> CancelledError \<and> c \<noteq> KeyboardInterrupt)"

text \<open>\<open>try: body  except Exception as e: handler(e)\<close>\<close>

fun except_Exception :: "pyexc + 'a \<Rightarrow> (pyexc \<Rightarrow> pyexc + 'a) \<Rightarrow> pyexc + 'a" where
  "except_Exception (Inr v) handler = Inr v"
| "except_Exception (Inl e) handler = (if isinstance_Exception e then handler e else Inl e)"

text \<open>The text of the \<open>AttributeError\<close> that an attribute access on \<open>None\<close> raises.\<close>

definition NoneType_has_no_attribute :: "string \<Rightarrow> string" where
  "NoneType_has_no_attribute attr =
     [CHR 0x27] @ ''NoneType'' @ [CHR 0x27] @ '' object has no attribute ''
     @ [CHR 0x27] @ attr @ [CHR 0x27]"

definition HTTP_NOT_FOUND :: nat where
  "HTTP_NOT_FOUND = 404"

section \<open>Configuration (config.py)\<close>

text \<open>
  The fields of \<open>Settings\<close> that the clients read.  A \<open>SecretStr\<close> is modelled by the
  secret it holds: its truth value is that of the string (\<open>SecretStr.__len__\<close>).
  A temperature is tested for zero and handed on, never computed with; it is written as
  the decimal that the source writes.
\<close>

record Settings =
  jira_url :: "string option"
  jira_username :: "string option"
  jira_api_token :: "string option"
  github_token :: "string option"
  github_base_url :: "string option"
  jenkins_url :: "string option"
  jenkins_username :: "string option"
  jenkins_token :: "string option"
  groq_api_key :: "string option"
  groq_model_name :: string
  groq_max_tokens :: int
  groq_temperature :: rat

text \<open>Python truth value of an optional string: \<open>None\<close> and \<open>""\<close> are false.\<close>

fun truthy :: "string option \<Rightarrow> bool" where
  "truthy None = False"
| "truthy (Some s) = (s \<noteq> [])"

text \<open>\<open>x or d\<close> on an optional number: \<open>None\<close> and zero are false, so \<open>d\<close> is taken.\<close>

fun or_default :: "'a::zero option \<Rightarrow> 'a \<Rightarrow> 'a" where
  "or_default None d = d"
| "or_default (Some x) d = (if x = 0 then d else x)"

section \<open>The third-party SDKs\<close>

text \<open>
  The Jira, PyGithub, httpx and Groq libraries are outside the repository.  Each call
  into them is a field of the record \<open>sdk\<close>: a function from the arguments the source
  passes to either the exception the call raises or the value it returns.  A live SDK
  object is a \<open>handle\<close>.
\<close>

type_synonym handle = nat

record Issue =
  issue_key :: string
  issue_summary :: string
  issue_status :: string
  issue_assignee :: "string option"
  customfield_10026 :: "int option"

record Sprint =
  sprint_id_of :: int
  sprint_name :: string

record ContentFile =
  cf_type :: string
  cf_path :: string
  cf_content :: string
  cf_name :: string

datatype contents = File ContentFile | Listing "ContentFile list"

record completion_request =
  req_model :: string
  req_messages :: "(string \<times> string) list"
  req_temperature :: rat
  req_max_tokens :: int

datatype json = JNull | JInt int | JStr string | JObj "(string \<times> json) list"

record http_response =
  resp_status_code :: nat
  resp_json :: "pyexc + (string \<times> json) list"

record sdk =
  sdk_JIRA :: "string \<Rightarrow> string \<times> string \<Rightarrow> pyexc + handle"
  sdk_search_issues :: "handle \<Rightarrow> string \<Rightarrow> pyexc + Issue list"
  sdk_sprint :: "handle \<Rightarrow> int \<Rightarrow> pyexc + Sprint"
  sdk_sprints :: "handle \<Rightarrow> nat \<Rightarrow> int \<Rightarrow> pyexc + Sprint list"
  sdk_Github :: "string \<Rightarrow> string option \<Rightarrow> pyexc + handle"
  sdk_get_user :: "handle \<Rightarrow> pyexc + string"
  sdk_get_repo :: "handle \<Rightarrow> string \<Rightarrow> pyexc + handle"
  sdk_get_contents :: "handle \<Rightarrow> string \<Rightarrow> pyexc + contents"
  sdk_AsyncClient :: "string \<Rightarrow> string \<times> string \<Rightarrow> pyexc + handle"
  sdk_request :: "handle \<Rightarrow> string \<Rightarrow> string \<Rightarrow> pyexc + http_response"
  sdk_Groq :: "string \<Rightarrow> pyexc + handle"
  sdk_chat_completions_create :: "handle \<Rightarrow> completion_request \<Rightarrow> pyexc + string list"

section \<open>Constructing the clients\<close>

record JiraClient =
  JiraClient_client :: "handle option"

record GitHubClient =
  GitHubClient_client :: "handle option"

record JenkinsClient =
  JenkinsClient_client :: "handle option"
  JenkinsClient_base_url :: "string option"

record GroqClient =
  GroqClient_client :: handle
  GroqClient_model :: string
  GroqClient_max_tokens :: int
  GroqClient_temperature :: rat

text \<open>\<open>JiraClient.__init__\<close> (jira_client.py)\<close>

definition JiraClient_init :: "sdk \<Rightarrow> Settings \<Rightarrow> pyexc + JiraClient" where
  "JiraClient_init sdk settings =
     (if \<not> truthy (jira_url settings) \<or> \<not> truthy (jira_username settings)
         \<or> \<not> truthy (jira_api_token settings)
      then Inr \<lparr>JiraClient_client = None\<rparr>
      else except_Exception
        (case sdk_JIRA sdk (the (jira_url settings))
                (the (jira_username settings), the (jira_api_token settings)) of
           Inl e \<Rightarrow> Inl e
         | Inr h \<Rightarrow> Inr \<lparr>JiraClient_client = Some h\<rparr>)
        (\<lambda>e. Inr \<lparr>JiraClient_client = None\<rparr>))"

text \<open>\<open>GitHubClient.__init__\<close> (github_client.py); \<open>NotSet\<close> is \<open>None\<close> here.\<close>

definition GitHubClient_init :: "sdk \<Rightarrow> Settings \<Rightarrow> pyexc + GitHubClient" where
  "GitHubClient_init sdk settings =
     (if \<not> truthy (github_token settings)
      then Inr \<lparr>GitHubClient_client = None\<rparr>
      else except_Exception
        (let auth_token = the (github_token settings);
             base_url = (if truthy (github_base_url settings)
                         then github_base_url settings else None)
         in case sdk_Github sdk auth_token base_url of
              Inl e \<Rightarrow> Inl e
            | Inr h \<Rightarrow>
                (case sdk_get_user sdk h of
                   Inl e \<Rightarrow> Inl e
                 | Inr login \<Rightarrow> Inr \<lparr>GitHubClient_client = Some h\<rparr>))
        (\<lambda>e. Inr \<lparr>GitHubClient_client = None\<rparr>))"

text \<open>\<open>str.rstrip('/')\<close>\<close>

definition rstrip_slash :: "string \<Rightarrow> string" where
  "rstrip_slash s = rev (dropWhile (\<lambda>c. c = CHR ''/'') (rev s))"

text \<open>\<open>JenkinsClient.__init__\<close> (jenkins_client.py)\<close>

definition JenkinsClient_init :: "sdk \<Rightarrow> Settings \<Rightarrow> pyexc + JenkinsClient" where
  "JenkinsClient_init sdk settings =
     (if \<not> truthy (jenkins_url settings) \<or> \<not> truthy (jenkins_username settings)
         \<or> \<not> truthy (jenkins_token settings)
      then Inr \<lparr>JenkinsClient_client = None, JenkinsClient_base_url = None\<rparr>
      else
        (let base_url = rstrip_slash (the (jenkins_url settings));
             auth = (the (jenkins_username settings), the (jenkins_token settings))
         in case sdk_AsyncClient sdk base_url auth of
              Inl e \<Rightarrow> Inl e
            | Inr h \<Rightarrow> Inr \<lparr>JenkinsClient_client = Some h,
                           JenkinsClient_base_url = Some base_url\<rparr>))"

text \<open>
  \<open>GroqClient.__init__\<close> (groq_client.py).  There is no test of the key:
  \<open>settings.groq_api_key.get_secret_value()\<close> is an attribute access on \<open>None\<close> when
  the key is absent.
\<close>

definition GroqClient_init :: "sdk \<Rightarrow> Settings \<Rightarrow> pyexc + GroqClient" where
  "GroqClient_init sdk settings =
     (case groq_api_key settings of
        None \<Rightarrow> Inl (PyExc AttributeError 0 (NoneType_has_no_attribute ''get_secret_value''))
      | Some api_key \<Rightarrow>
          (case sdk_Groq sdk api_key of
             Inl e \<Rightarrow> Inl e
           | Inr h \<Rightarrow> Inr \<lparr>GroqClient_client = h,
                          GroqClient_model = groq_model_name settings,
                          GroqClient_max_tokens = groq_max_tokens settings,
                          GroqClient_temperature = groq_temperature settings\<rparr>))"

section \<open>The lifecycle manager (clients/__init__.py)\<close>

record Clients =
  jira :: "JiraClient option"
  github :: "GitHubClient option"
  jenkins :: "JenkinsClient option"
  groq :: "GroqClient option"

text \<open>
  One turn of the loop over the gathered results: an \<open>Exception\<close> is logged, an
  instance of the expected class is kept, anything else (a \<open>BaseException\<close>) is logged
  as an unexpected type.  A name that is not kept stays at the dataclass default \<open>None\<close>.
\<close>

fun initialized :: "pyexc + 'c \<Rightarrow> 'c option" where
  "initialized (Inl e) = (if isinstance_Exception e then None else None)"
| "initialized (Inr c) = Some c"

definition Clients_of_results ::
  "pyexc + JiraClient \<Rightarrow> pyexc + GitHubClient \<Rightarrow> pyexc + JenkinsClient \<Rightarrow> pyexc + GroqClient
     \<Rightarrow> Clients" where
  "Clients_of_results r_jira r_github r_jenkins r_groq =
     \<lparr>jira = initialized r_jira, github = initialized r_github,
      jenkins = initialized r_jenkins, groq = initialized r_groq\<rparr>"

text \<open>The bundle that \<open>create_api_clients\<close> yields.\<close>

definition create_api_clients :: "sdk \<Rightarrow> Settings \<Rightarrow> Clients" where
  "create_api_clients sdk settings =
     Clients_of_results (JiraClient_init sdk settings) (GitHubClient_init sdk settings)
       (JenkinsClient_init sdk settings) (GroqClient_init sdk settings)"

text \<open>
  The \<open>finally\<close> block: one close task for each of \<open>clients.jira\<close>, \<open>clients.github\<close>
  and \<open>clients.jenkins\<close> that is set (a client object is always true).  The source adds
  none for \<open>clients.groq\<close>: "Groq doesn't need explicit close", and \<open>GroqClient\<close> has no
  \<open>close\<close> method.
\<close>

datatype close_task =
  Close_jira JiraClient | Close_github GitHubClient | Close_jenkins JenkinsClient

definition close_tasks :: "Clients \<Rightarrow> close_task list" where
  "close_tasks clients =
     (case jira clients of None \<Rightarrow> [] | Some c \<Rightarrow> [Close_jira c])
     @ (case github clients of None \<Rightarrow> [] | Some c \<Rightarrow> [Close_github c])
     @ (case jenkins clients of None \<Rightarrow> [] | Some c \<Rightarrow> [Close_jenkins c])"

text \<open>The counts that the lifecycle property speaks of.\<close>

fun failed :: "pyexc + 'c \<Rightarrow> nat" where
  "failed (Inl e) = 1"
| "failed (Inr c) = 0"

fun set_slot :: "'c option \<Rightarrow> nat" where
  "set_slot None = 0"
| "set_slot (Some c) = 1"

definition non_None_entries :: "Clients \<Rightarrow> nat" where
  "non_None_entries clients =
     set_slot (jira clients) + set_slot (github clients)
     + set_slot (jenkins clients) + set_slot (groq clients)"

section \<open>The completion client (groq_client.py)\<close>

text \<open>The keyword arguments that \<open>generate_completion\<close> passes to the SDK.\<close>

definition completion_kwargs ::
  "GroqClient \<Rightarrow> (string \<times> string) list \<Rightarrow> rat option \<Rightarrow> int option \<Rightarrow> completion_request" where
  "completion_kwargs self messages temperature max_tokens =
     \<lparr>req_model = GroqClient_model self,
      req_messages = messages,
      req_temperature = or_default temperature (GroqClient_temperature self),
      req_max_tokens = or_default max_tokens (GroqClient_max_tokens self)\<rparr>"

text \<open>
  \<open>await x\<close> on an object that is not awaitable raises \<open>TypeError\<close>; the argument is
  the name of the object's class, and the text is the one of CPython 3.10 to 3.13.
\<close>

definition await_not_awaitable :: "string \<Rightarrow> pyexc + 'a" where
  "await_not_awaitable cls =
     Inl (PyExc TypeError 0
            (''object '' @ cls @ '' can'' @ [CHR 0x27] @ ''t be used in '' @ [CHR 0x27]
             @ ''await'' @ [CHR 0x27] @ '' expression''))"

text \<open>
  What \<open>generate_completion\<close> does once the SDK call has returned.  \<open>__init__\<close> builds
  the synchronous client \<open>groq.Groq\<close>, so \<open>self.client.chat.completions.create(...)\<close>
  returns the \<open>ChatCompletion\<close> itself, and the source awaits it: the \<open>await\<close>
  raises, and \<open>response.choices[0].message.content\<close> (\<open>IndexError\<close> on an empty list
  of choices) is read from what the \<open>await\<close> yields.
\<close>

definition completion_of_response :: "string list \<Rightarrow> pyexc + string" where
  "completion_of_response chat_completion =
     (case (await_not_awaitable ''ChatCompletion'' :: pyexc + string list) of
        Inl e \<Rightarrow> Inl e
      | Inr response \<Rightarrow>
          (case response of
             [] \<Rightarrow> Inl (PyExc IndexError 0 ''list index out of range'')
           | c # cs \<Rightarrow> Inr c))"

text \<open>
  \<open>generate_completion\<close>: the SDK is called with the keyword arguments and answers with
  the contents of the choices.  The \<open>except\<close> clause logs and re-raises.
\<close>

definition generate_completion ::
  "sdk \<Rightarrow> GroqClient \<Rightarrow> (string \<times> string) list \<Rightarrow> rat option \<Rightarrow> int option \<Rightarrow> pyexc + string" where
  "generate_completion sdk self messages temperature max_tokens =
     (case sdk_chat_completions_create sdk (GroqClient_client self)
             (completion_kwargs self messages temperature max_tokens) of
        Inl e \<Rightarrow> Inl e
      | Inr chat_completion \<Rightarrow> completion_of_response chat_completion)"

section \<open>The sampling callback (server.py)\<close>

datatype message = SamplingMessage (msg_role: string) (msg_content: string) | OtherMessage

record CreateMessageRequestParams =
  params_messages :: "message list"
  params_temperature :: "rat option"
  params_max_tokens :: "int option"

record CreateMessageResponse =
  response_content :: string
  response_finish_reason :: "string option"

text \<open>
  The class \<open>CreateMessageResponse\<close> is imported from \<open>mcp.types\<close>.  A response is
  the keyword arguments that the source passes to the constructor: \<open>content\<close> always,
  and \<open>finish_reason\<close> where the source gives one (\<open>None\<close> where it gives none).
\<close>

definition CreateMessageResponse :: "string \<Rightarrow> string option \<Rightarrow> CreateMessageResponse" where
  "CreateMessageResponse c fr = \<lparr>response_content = c, response_finish_reason = fr\<rparr>"

text \<open>The loop that converts the request's messages; other objects are skipped.\<close>

fun groq_messages_of :: "message list \<Rightarrow> (string \<times> string) list" where
  "groq_messages_of [] = []"
| "groq_messages_of (SamplingMessage r c # msgs) = (r, c) # groq_messages_of msgs"
| "groq_messages_of (OtherMessage # msgs) = groq_messages_of msgs"

text \<open>The body of the \<open>try\<close> block of \<open>handle_sampling_message\<close>.\<close>

definition handle_sampling_message_try ::
  "sdk \<Rightarrow> Settings \<Rightarrow> CreateMessageRequestParams \<Rightarrow> pyexc + CreateMessageResponse" where
  "handle_sampling_message_try sdk settings params =
     (case GroqClient_init sdk settings of
        Inl e \<Rightarrow> Inl e
      | Inr groq_client \<Rightarrow>
          (let groq_messages = groq_messages_of (params_messages params)
           in case generate_completion sdk groq_client groq_messages
                     (Some (or_default (params_temperature params) (7 / 10)))
                     (Some (or_default (params_max_tokens params) 1000)) of
                Inl e \<Rightarrow> Inl e
              | Inr completion \<Rightarrow> Inr (CreateMessageResponse completion None)))"

definition handle_sampling_message ::
  "sdk \<Rightarrow> Settings \<Rightarrow> CreateMessageRequestParams \<Rightarrow> pyexc + CreateMessageResponse" where
  "handle_sampling_message sdk settings params =
     except_Exception (handle_sampling_message_try sdk settings params)
       (\<lambda>e. Inr (CreateMessageResponse (''Error generating response: '' @ exc_str e)
                    (Some ''error'')))"

section \<open>Client operations\<close>

subsection \<open>jira_client.py\<close>

definition JiraClient_run_sync :: "JiraClient \<Rightarrow> (handle \<Rightarrow> pyexc + 'a) \<Rightarrow> pyexc + 'a" where
  "JiraClient_run_sync self func =
     (case JiraClient_client self of
        None \<Rightarrow> Inl (PyExc ConnectionError 0 ''Jira client is not initialized or configured.'')
      | Some h \<Rightarrow> func h)"

text \<open>
  \<open>get_sprint_tasks\<close>: both \<open>except\<close> clauses log and re-raise, whatever the status
  code, so every exception of the search leaves the method.
\<close>

definition JiraClient_get_sprint_tasks ::
  "sdk \<Rightarrow> JiraClient \<Rightarrow> string \<Rightarrow> string \<Rightarrow> pyexc + Issue list" where
  "JiraClient_get_sprint_tasks sdk self project_key sprint_id =
     (case JiraClient_client self of
        None \<Rightarrow> Inr []
      | Some c \<Rightarrow>
          (let jql = ''project = '' @ [CHR 0x22] @ project_key @ [CHR 0x22]
                     @ '' AND sprint = '' @ sprint_id
           in case JiraClient_run_sync self (\<lambda>h. sdk_search_issues sdk h jql) of
                Inr tasks \<Rightarrow> Inr tasks
              | Inl e \<Rightarrow> Inl e))"

definition JiraClient_get_sprint :: "sdk \<Rightarrow> JiraClient \<Rightarrow> int \<Rightarrow> pyexc + Sprint option" where
  "JiraClient_get_sprint sdk self sprint_id =
     (case JiraClient_client self of
        None \<Rightarrow> Inr None
      | Some c \<Rightarrow>
          (case JiraClient_run_sync self (\<lambda>h. sdk_sprint sdk h sprint_id) of
             Inr sprint \<Rightarrow> Inr (Some sprint)
           | Inl e \<Rightarrow>
               (if exc_class e = JIRAError
                then (if status_code e = HTTP_NOT_FOUND then Inr None else Inl e)
                else Inl e)))"

definition JiraClient_get_completed_sprints ::
  "sdk \<Rightarrow> JiraClient \<Rightarrow> string \<Rightarrow> int \<Rightarrow> pyexc + Sprint list" where
  "JiraClient_get_completed_sprints sdk self project_key limit =
     (case JiraClient_client self of
        None \<Rightarrow> Inr []
      | Some c \<Rightarrow>
          (let board_id = 1
           in case JiraClient_run_sync self (\<lambda>h. sdk_sprints sdk h board_id limit) of
                Inr sprints \<Rightarrow> Inr sprints
              | Inl e \<Rightarrow> Inl e))"

subsection \<open>github_client.py\<close>

definition GitHubClient_run_sync :: "GitHubClient \<Rightarrow> (handle \<Rightarrow> pyexc + 'a) \<Rightarrow> pyexc + 'a" where
  "GitHubClient_run_sync self func =
     (case GitHubClient_client self of
        None \<Rightarrow> Inl (PyExc ConnectionError 0 ''GitHub client is not initialized or configured.'')
      | Some h \<Rightarrow> func h)"

definition GitHubClient_get_repo ::
  "sdk \<Rightarrow> GitHubClient \<Rightarrow> string \<Rightarrow> string \<Rightarrow> pyexc + handle option" where
  "GitHubClient_get_repo sdk self owner repo_name =
     (case GitHubClient_client self of
        None \<Rightarrow> Inr None
      | Some c \<Rightarrow>
          (case GitHubClient_run_sync self
                  (\<lambda>h. sdk_get_repo sdk h (owner @ ''/'' @ repo_name)) of
             Inr repo \<Rightarrow> Inr (Some repo)
           | Inl e \<Rightarrow>
               (if exc_class e = GithubException
                then (if status_code e = HTTP_NOT_FOUND then Inr None else Inl e)
                else Inl e)))"

definition GitHubClient_get_content ::
  "sdk \<Rightarrow> GitHubClient \<Rightarrow> string \<Rightarrow> string \<Rightarrow> string \<Rightarrow> pyexc + contents option" where
  "GitHubClient_get_content sdk self owner repo_name path =
     (case GitHubClient_get_repo sdk self owner repo_name of
        Inl e \<Rightarrow> Inl e
      | Inr None \<Rightarrow> Inr None
      | Inr (Some repo) \<Rightarrow>
          (case GitHubClient_run_sync self (\<lambda>h. sdk_get_contents sdk repo path) of
             Inr content \<Rightarrow> Inr (Some content)
           | Inl e \<Rightarrow>
               (if exc_class e = GithubException
                then (if status_code e = HTTP_NOT_FOUND then Inr None else Inl e)
                else Inl e)))"

subsection \<open>jenkins_client.py\<close>

text \<open>
  \<open>response.raise_for_status()\<close> of httpx returns on a status from 200 to 299 and
  raises \<open>HTTPStatusError\<close> on every other one (the source's comment names 4xx and 5xx;
  the client as constructed follows no redirect, so a 3xx answer arrives here too).
\<close>

definition raise_for_status :: "http_response \<Rightarrow> pyexc + unit" where
  "raise_for_status response =
     (if 200 \<le> resp_status_code response \<and> resp_status_code response < 300
      then Inr ()
      else Inl (PyExc HTTPStatusError (resp_status_code response) ''HTTP status error''))"

text \<open>The three \<open>except\<close> clauses of \<open>_request\<close>, in the source's order.\<close>

definition request_except :: "pyexc \<Rightarrow> pyexc + (string \<times> json) list option" where
  "request_except e =
     (if exc_class e = HTTPStatusError then Inr None
      else if exc_class e = RequestError
      then Inl (PyExc ConnectionError 0 (''Could not connect to Jenkins: '' @ exc_str e))
      else Inl e)"

definition JenkinsClient_request ::
  "sdk \<Rightarrow> JenkinsClient \<Rightarrow> string \<Rightarrow> string \<Rightarrow> pyexc + (string \<times> json) list option" where
  "JenkinsClient_request sdk self method endpoint =
     (case JenkinsClient_client self of
        None \<Rightarrow> Inl (PyExc ConnectionError 0 ''Jenkins client is not initialized or configured.'')
      | Some h \<Rightarrow>
          (let url = endpoint @ ''/api/json''
           in case sdk_request sdk h method url of
                Inl e \<Rightarrow> request_except e
              | Inr response \<Rightarrow>
                  (case raise_for_status response of
                     Inl e \<Rightarrow> request_except e
                   | Inr u \<Rightarrow>
                       (case resp_json response of
                          Inl e \<Rightarrow> request_except e
                        | Inr d \<Rightarrow> Inr (Some d)))))"

definition JenkinsClient_get_build_info ::
  "sdk \<Rightarrow> JenkinsClient \<Rightarrow> string \<Rightarrow> string \<Rightarrow> pyexc + (string \<times> json) list option" where
  "JenkinsClient_get_build_info sdk self job_name build_number =
     JenkinsClient_request sdk self ''GET'' (''/job/'' @ job_name @ ''/'' @ build_number)"

definition JenkinsClient_get_job_info ::
  "sdk \<Rightarrow> JenkinsClient \<Rightarrow> string \<Rightarrow> pyexc + (string \<times> json) list option" where
  "JenkinsClient_get_job_info sdk self job_name =
     JenkinsClient_request sdk self ''GET'' (''/job/'' @ job_name)"

subsection \<open>groq_client.py\<close>


section \<open>Closing the clients\<close>

text \<open>
  Closing acts on the connection that the SDK object holds, which is state outside the
  client.  The SDK's own close is a parameter: given the handle and the state \<open>'w\<close> of
  the connections it returns the exception it raises, if any, and the new state.  No
  \<open>close\<close> method assigns to \<open>self._client\<close>, so the client itself is the same object
  before and after.
\<close>

type_synonym 'w sdk_close = "handle \<Rightarrow> 'w \<Rightarrow> pyexc option \<times> 'w"

text \<open>\<open>JenkinsClient.close\<close>: \<open>if self._client: await self._client.aclose()\<close>\<close>

definition JenkinsClient_close :: "'w sdk_close \<Rightarrow> JenkinsClient \<Rightarrow> 'w \<Rightarrow> pyexc option \<times> 'w" where
  "JenkinsClient_close aclose self w =
     (case JenkinsClient_client self of
        None \<Rightarrow> (None, w)
      | Some h \<Rightarrow> aclose h w)"

text \<open>
  \<open>JiraClient.close\<close>: the SDK's close runs inside \<open>try\<close>; \<open>AttributeError\<close> and any
  other \<open>Exception\<close> are logged and dropped.
\<close>

definition JiraClient_close :: "'w sdk_close \<Rightarrow> JiraClient \<Rightarrow> 'w \<Rightarrow> pyexc option \<times> 'w" where
  "JiraClient_close jira_close self w =
     (case JiraClient_client self of
        None \<Rightarrow> (None, w)
      | Some h \<Rightarrow>
          (case jira_close h w of
             (None, w') \<Rightarrow> (None, w')
           | (Some e, w') \<Rightarrow> (if isinstance_Exception e then (None, w') else (Some e, w'))))"

text \<open>\<open>GitHubClient.close\<close>: \<open>pass\<close>\<close>

definition GitHubClient_close :: "GitHubClient \<Rightarrow> 'w \<Rightarrow> pyexc option \<times> 'w" where
  "GitHubClient_close self w = (None, w)"

text \<open>
  What the SDK's close does on a connection that it has closed already.  After
  \<open>close h\<close> in state \<open>w\<close>, a further \<open>close h\<close> raises nothing and changes nothing
  (\<open>noop_when_closed\<close>), or changes nothing and raises at most an \<open>Exception\<close>
  (\<open>quiet_when_closed\<close>).  \<open>httpx.AsyncClient.aclose()\<close> and \<open>JIRA.close()\<close> test
  whether the client is closed and return at once if it is.
\<close>

definition noop_when_closed :: "'w sdk_close \<Rightarrow> handle \<Rightarrow> 'w \<Rightarrow> bool" where
  "noop_when_closed close h w = (close h (snd (close h w)) = (None, snd (close h w)))"

definition quiet_when_closed :: "'w sdk_close \<Rightarrow> handle \<Rightarrow> 'w \<Rightarrow> bool" where
  "quiet_when_closed close h w =
     (case close h (snd (close h w)) of
        (None, w'') \<Rightarrow> w'' = snd (close h w)
      | (Some e, w'') \<Rightarrow> w'' = snd (close h w) \<and> isinstance_Exception e)"

text \<open>Two calls in succession; the second runs when the first has returned.\<close>

definition twice :: "('w \<Rightarrow> pyexc option \<times> 'w) \<Rightarrow> 'w \<Rightarrow> pyexc option \<times> 'w" where
  "twice close w =
     (case close w of
        (Some e, w') \<Rightarrow> (Some e, w')
      | (None, w') \<Rightarrow> close w')"

section \<open>Python built-ins used by the handlers\<close>

text \<open>\<open>str(n)\<close> for integers.\<close>

definition digit_char :: "nat \<Rightarrow> char" where
  "digit_char d = ''0123456789'' ! d"

fun str_nat :: "nat \<Rightarrow> string" where
  "str_nat n = (if n < 10 then [digit_char n] else str_nat (n div 10) @ [digit_char (n mod 10)])"

declare str_nat.simps [simp del]

definition str_int :: "int \<Rightarrow> string" where
  "str_int i = (if i < 0 then CHR ''-'' # str_nat (nat (- i)) else str_nat (nat i))"

text \<open>
  What the Python runtime and the MCP framework supply to the handlers, as parameters:
  the rounding of an exact number to the nearest float, the text that \<open>format\<close>
  renders for a number under a valid specification, \<open>base64.b64decode(s).decode()\<close>,
  \<open>(sprint.endDate - datetime.now()).days\<close> and \<open>mcp.sample_from_llm\<close>.

  A float is represented by the rational number it is, so comparisons of floats are
  comparisons of rationals.  Every float operation, the true division of two integers,
  the conversion of an integer and a decimal literal return the float nearest to the
  exact result: \<open>rt_float\<close> of it.
\<close>

record runtime =
  rt_float :: "rat \<Rightarrow> rat"
  rt_render_float :: "rat \<Rightarrow> string \<Rightarrow> string"
  rt_b64decode_utf8 :: "string \<Rightarrow> pyexc + string"
  rt_days_until :: "Sprint \<Rightarrow> pyexc + int"
  rt_sample_from_llm :: "message list \<Rightarrow> rat \<Rightarrow> int \<Rightarrow> pyexc + CreateMessageResponse"

text \<open>True division of two integers: the float of the quotient, or \<open>ZeroDivisionError\<close>.\<close>

definition py_truediv :: "runtime \<Rightarrow> int \<Rightarrow> int \<Rightarrow> pyexc + rat" where
  "py_truediv rt a b =
     (if b = 0 then Inl (PyExc ZeroDivisionError 0 ''division by zero'')
      else Inr (rt_float rt (of_int a / of_int b)))"

text \<open>
  The format specification of a replacement field \<open>{value:spec}\<close> is everything after the
  first colon, taken literally.  \<open>format(x, spec)\<close> on a float reads the specification
  by the grammar
  \<open>[[fill]align][sign]["z"]["#"]["0"][width][grouping]["." precision][type]\<close>
  and raises \<open>ValueError\<close> when more than the one type character is left over, when
  the precision has no digits, or when the type is not one of a float.  (The flag \<open>0\<close>
  is a digit, so skipping the width covers it.)  The text of the error is the one all
  CPython versions begin with; from 3.12 on the interpreter appends the specification
  and the type of the value to it.
\<close>

definition is_align :: "char \<Rightarrow> bool" where
  "is_align c = (c \<in> set ''<>=^'')"

definition is_digit :: "char \<Rightarrow> bool" where
  "is_digit c = (c \<in> set ''0123456789'')"

fun skip_fill_align :: "string \<Rightarrow> string" where
  "skip_fill_align (f # a # rest) =
     (if is_align a then rest else if is_align f then a # rest else f # a # rest)"
| "skip_fill_align [f] = (if is_align f then [] else [f])"
| "skip_fill_align [] = []"

fun skip_one_of :: "string \<Rightarrow> string \<Rightarrow> string" where
  "skip_one_of cs [] = []"
| "skip_one_of cs (c # rest) = (if c \<in> set cs then rest else c # rest)"

fun skip_precision :: "string \<Rightarrow> pyexc + string" where
  "skip_precision [] = Inr []"
| "skip_precision (c # rest) =
     (if c = CHR ''.''
      then (if takeWhile is_digit rest = []
            then Inl (PyExc ValueError 0 ''Format specifier missing precision'')
            else Inr (dropWhile is_digit rest))
      else Inr (c # rest))"

definition check_float_format_spec :: "string \<Rightarrow> pyexc option" where
  "check_float_format_spec spec =
     (let s1 = skip_fill_align spec;
          s2 = skip_one_of ''+- '' s1;
          s3 = skip_one_of ''z'' s2;
          s4 = skip_one_of ''#'' s3;
          s5 = dropWhile is_digit s4;
          s6 = skip_one_of '',_'' s5
      in case skip_precision s6 of
           Inl e \<Rightarrow> Some e
         | Inr [] \<Rightarrow> None
         | Inr [t] \<Rightarrow>
             (if t \<in> set ''eEfFgGn%'' then None
              else Some (PyExc ValueError 0 ''Unknown format code''))
         | Inr (t # u # rest) \<Rightarrow> Some (PyExc ValueError 0 ''Invalid format specifier''))"

definition py_format :: "runtime \<Rightarrow> rat \<Rightarrow> string \<Rightarrow> pyexc + string" where
  "py_format rt x spec =
     (case check_float_format_spec spec of
        Some e \<Rightarrow> Inl e
      | None \<Rightarrow> Inr (rt_render_float rt x spec))"

text \<open>\<open>{(a/b*100):spec}\<close>: the division is evaluated first, then the value is formatted.\<close>

definition format_percent :: "runtime \<Rightarrow> int \<Rightarrow> int \<Rightarrow> string \<Rightarrow> pyexc + string" where
  "format_percent rt a b spec =
     (case py_truediv rt a b of
        Inl e \<Rightarrow> Inl e
      | Inr q \<Rightarrow> py_format rt (rt_float rt (q * 100)) spec)"

text \<open>\<open>"\n".join\<close>, \<open>str.split("\n")\<close>, \<open>str.strip\<close>, \<open>str.startswith("#")\<close>, \<open>kw in line\<close>.\<close>

fun join_newline :: "string list \<Rightarrow> string" where
  "join_newline [] = []"
| "join_newline [l] = l"
| "join_newline (l # m # ls) = l @ [CHR 0x0A] @ join_newline (m # ls)"







section \<open>Resources and tools (server.py)\<close>

text \<open>
  A handler reaches the bundle through \<open>mcp.lifespan_context\<close>; here the bundle is the
  argument \<open>ctx\<close>.  A resource returns JSON text that the tools parse again with
  \<open>json.loads\<close>; the text is represented by the document it encodes, with one
  constructor for the normal document and one for the document \<open>{"error": ...}\<close>.
\<close>

record task_row =
  task_key :: string
  task_summary :: string
  task_status :: string
  task_assignee :: "string option"
  task_story_points :: "int option"

datatype tasks_doc = Tasks_doc nat "task_row list" | Tasks_error string

definition task_row_of :: "Issue \<Rightarrow> task_row" where
  "task_row_of task =
     \<lparr>task_key = issue_key task, task_summary = issue_summary task,
      task_status = issue_status task, task_assignee = issue_assignee task,
      task_story_points = customfield_10026 task\<rparr>"

subsection \<open>Resource \<open>get_sprint_tasks\<close>\<close>

definition get_sprint_tasks_try :: "sdk \<Rightarrow> Clients \<Rightarrow> string \<Rightarrow> string \<Rightarrow> pyexc + tasks_doc" where
  "get_sprint_tasks_try sdk ctx project_key sprint_id =
     (case jira ctx of
        None \<Rightarrow> Inl (PyExc AttributeError 0 (NoneType_has_no_attribute ''get_sprint_tasks''))
      | Some jira_client \<Rightarrow>
          (case JiraClient_get_sprint_tasks sdk jira_client project_key sprint_id of
             Inl e \<Rightarrow> Inl e
           | Inr tasks \<Rightarrow> Inr (Tasks_doc (length tasks) (map task_row_of tasks))))"

definition get_sprint_tasks :: "sdk \<Rightarrow> Clients \<Rightarrow> string \<Rightarrow> string \<Rightarrow> pyexc + tasks_doc" where
  "get_sprint_tasks sdk ctx project_key sprint_id =
     except_Exception (get_sprint_tasks_try sdk ctx project_key sprint_id)
       (\<lambda>e. Inr (Tasks_error (exc_str e)))"

subsection \<open>Resource \<open>get_github_content\<close>\<close>






subsection \<open>Resource \<open>get_build_status\<close>\<close>




subsection \<open>Tool \<open>generate_sprint_report\<close>\<close>

text \<open>\<open>status_counts[s] = status_counts.get(s, 0) + 1\<close> on an insertion-ordered dict.\<close>

fun count_status :: "(string \<times> nat) list \<Rightarrow> string \<Rightarrow> (string \<times> nat) list" where
  "count_status [] s = [(s, 1)]"
| "count_status ((k, n) # kvs) s =
     (if k = s then (k, n + 1) # kvs else (k, n) # count_status kvs s)"

definition story_points_sum :: "task_row list \<Rightarrow> int" where
  "story_points_sum tasks = sum_list (map (\<lambda>task. or_default (task_story_points task) 0) tasks)"

text \<open>
  The \<open>try\<close> block.  The list \<open>report\<close> is built element by element, so the two
  percentages are computed in order, each by the division and then by \<open>format\<close> with
  the specification as the source writes it after the colon:
  \<open>.1f if total_tasks > 0 else 0\<close> and \<open>.1f if total_points > 0 else 0\<close>.
\<close>

definition generate_sprint_report_try ::
  "runtime \<Rightarrow> sdk \<Rightarrow> Clients \<Rightarrow> string \<Rightarrow> int \<Rightarrow> pyexc + string" where
  "generate_sprint_report_try rt sdk ctx project_key sprint_id =
     (case get_sprint_tasks sdk ctx project_key (str_int sprint_id) of
        Inl e \<Rightarrow> Inl e
      | Inr (Tasks_error err) \<Rightarrow> Inr (''Error generating report: '' @ err)
      | Inr (Tasks_doc count tasks) \<Rightarrow>
          (let total_tasks = int (length tasks);
               completed_tasks = int (length (filter (\<lambda>task. task_status task = ''Done'') tasks));
               total_points = story_points_sum tasks;
               completed_points =
                 story_points_sum (filter (\<lambda>task. task_status task = ''Done'') tasks)
           in case format_percent rt completed_tasks total_tasks
                     ''.1f if total_tasks > 0 else 0'' of
                Inl e \<Rightarrow> Inl e
              | Inr tasks_percent \<Rightarrow>
                  (case format_percent rt completed_points total_points
                          ''.1f if total_points > 0 else 0'' of
                     Inl e \<Rightarrow> Inl e
                   | Inr points_percent \<Rightarrow>
                       Inr (join_newline
                         ([''Sprint Report for '' @ project_key @ '' Sprint '' @ str_int sprint_id,
                           replicate 50 CHR ''='',
                           ''Total Tasks: '' @ str_int total_tasks,
                           ''Completed Tasks: '' @ str_int completed_tasks
                             @ '' ('' @ tasks_percent @ ''%)'',
                           ''Total Story Points: '' @ str_int total_points,
                           ''Completed Points: '' @ str_int completed_points
                             @ '' ('' @ points_percent @ ''%)'',
                           [CHR 0x0A] @ ''Task Breakdown by Status:'']
                          @ map (\<lambda>(status, count). ''- '' @ status @ '': '' @ str_nat count)
                              (foldl count_status [] (map task_status tasks)))))))"

definition generate_sprint_report ::
  "runtime \<Rightarrow> sdk \<Rightarrow> Clients \<Rightarrow> string \<Rightarrow> int \<Rightarrow> pyexc + string" where
  "generate_sprint_report rt sdk ctx project_key sprint_id =
     except_Exception (generate_sprint_report_try rt sdk ctx project_key sprint_id)
       (\<lambda>e. Inr (''Error generating report: '' @ exc_str e))"

subsection \<open>Tool \<open>predict_burndown\<close>\<close>





subsection \<open>Tool \<open>assess_code_quality\<close>\<close>






subsection \<open>Tool \<open>analyze_code_with_groq\<close>\<close>




subsection \<open>Tool \<open>generate_ai_insights\<close>\<close>

definition generate_ai_insights_try :: "runtime \<Rightarrow> string \<Rightarrow> string \<Rightarrow> pyexc + string" where
  "generate_ai_insights_try rt context_info question =
     (let system_message =
            SamplingMessage ''system''
              (''You are an AI assistant specialized in software development and DevOps. ''
               @ ''Analyze the provided context and answer the question with detailed insights.'');
          user_message =
            SamplingMessage ''user''
              (''Context:'' @ [CHR 0x0A] @ context_info @ [CHR 0x0A, CHR 0x0A]
               @ ''Question: '' @ question)
      in case rt_sample_from_llm rt [system_message, user_message] (3 / 10) 1500 of
           Inl e \<Rightarrow> Inl e
         | Inr response \<Rightarrow> Inr (response_content response))"

definition generate_ai_insights :: "runtime \<Rightarrow> string \<Rightarrow> string \<Rightarrow> pyexc + string" where
  "generate_ai_insights rt context_info question =
     except_Exception (generate_ai_insights_try rt context_info question)
       (\<lambda>e. Inr (''Error generating insights: '' @ exc_str e))"

section \<open>Concrete inputs\<close>

definition demo_issues :: "Issue list" where
  "demo_issues =
     [\<lparr>issue_key = ''TEST-1'', issue_summary = ''first'', issue_status = ''Done'',
       issue_assignee = None, customfield_10026 = Some 3\<rparr>,
      \<lparr>issue_key = ''TEST-2'', issue_summary = ''second'', issue_status = ''Done'',
       issue_assignee = Some ''ada'', customfield_10026 = Some 5\<rparr>,
      \<lparr>issue_key = ''TEST-3'', issue_summary = ''third'', issue_status = ''In Progress'',
       issue_assignee = None, customfield_10026 = Some 2\<rparr>]"

text \<open>An SDK in which every constructor and every call succeeds.\<close>

definition sdk_demo :: sdk where
  "sdk_demo =
     \<lparr>sdk_JIRA = (\<lambda>server auth. Inr 1),
      sdk_search_issues = (\<lambda>h jql. Inr demo_issues),
      sdk_sprint = (\<lambda>h i. Inr \<lparr>sprint_id_of = i, sprint_name = ''Sprint''\<rparr>),
      sdk_sprints = (\<lambda>h board limit. Inr []),
      sdk_Github = (\<lambda>token base. Inr 2),
      sdk_get_user = (\<lambda>h. Inr ''octocat''),
      sdk_get_repo = (\<lambda>h name. Inr 20),
      sdk_get_contents = (\<lambda>repo path. Inr (Listing [])),
      sdk_AsyncClient = (\<lambda>url auth. Inr 3),
      sdk_request = (\<lambda>h method url. Inr \<lparr>resp_status_code = 200, resp_json = Inr []\<rparr>),
      sdk_Groq = (\<lambda>key. Inr 4),
      sdk_chat_completions_create = (\<lambda>h req. Inr [''an answer''])\<rparr>"

definition settings_full :: Settings where
  "settings_full =
     \<lparr>jira_url = Some ''https://jira.example'', jira_username = Some ''u'',
      jira_api_token = Some ''t'',
      github_token = Some ''g'', github_base_url = None,
      jenkins_url = Some ''https://ci.example/'', jenkins_username = Some ''u'',
      jenkins_token = Some ''t'',
      groq_api_key = Some ''k'', groq_model_name = ''mixtral-8x7b-32768'',
      groq_max_tokens = 32768, groq_temperature = 7 / 10\<rparr>"

text \<open>Clients as the constructors build them from \<open>settings_full\<close> and \<open>sdk_demo\<close>.\<close>

definition jira_demo :: JiraClient where
  "jira_demo = \<lparr>JiraClient_client = Some 1\<rparr>"

definition github_demo :: GitHubClient where
  "github_demo = \<lparr>GitHubClient_client = Some 2\<rparr>"

definition jenkins_demo :: JenkinsClient where
  "jenkins_demo = \<lparr>JenkinsClient_client = Some 3,
                    JenkinsClient_base_url = Some ''https://ci.example''\<rparr>"

text \<open>A remote that answers every query with the given status code.\<close>

definition sdk_status :: "nat \<Rightarrow> sdk" where
  "sdk_status code =
     sdk_demo
       \<lparr>sdk_search_issues := (\<lambda>h jql. Inl (PyExc JIRAError code ''remote error'')),
        sdk_sprint := (\<lambda>h i. Inl (PyExc JIRAError code ''remote error'')),
        sdk_sprints := (\<lambda>h board limit. Inl (PyExc JIRAError code ''remote error'')),
        sdk_get_repo := (\<lambda>h name. Inl (PyExc GithubException code ''remote error'')),
        sdk_get_contents := (\<lambda>repo path. Inl (PyExc GithubException code ''remote error'')),
        sdk_request := (\<lambda>h method url. Inr \<lparr>resp_status_code = code, resp_json = Inr []\<rparr>)\<rparr>"

text \<open>
  Two SDK closes over a state that lists the open connections and the connections
  released so far.  \<open>lenient_close\<close> releases an open connection and returns at once on
  one that is not open, as \<open>httpx.AsyncClient.aclose()\<close> and \<open>JIRA.close()\<close> do;
  \<open>strict_close\<close> raises on a connection that is not open.
\<close>

record connections =
  open_handles :: "handle list"
  released :: "handle list"


definition lenient_close :: "connections sdk_close" where
  "lenient_close h w =
     (if h \<in> set (open_handles w)
      then (None, \<lparr>open_handles = removeAll h (open_handles w), released = released w @ [h]\<rparr>)
      else (None, w))"



text \<open>No credential configured at all.\<close>

definition settings_empty :: Settings where
  "settings_empty =
     \<lparr>jira_url = None, jira_username = None, jira_api_token = None,
      github_token = None, github_base_url = None,
      jenkins_url = None, jenkins_username = None, jenkins_token = None,
      groq_api_key = None, groq_model_name = ''mixtral-8x7b-32768'',
      groq_max_tokens = 32768, groq_temperature = 7 / 10\<rparr>"

text \<open>
  A runtime whose sampling is served by the sampling callback under the given settings,
  and one whose sampling request finds no peer.
\<close>

definition rt_demo :: "Settings \<Rightarrow> runtime" where
  "rt_demo settings =
     \<lparr>rt_float = (\<lambda>x. x),
      rt_render_float = (\<lambda>x spec. ''0.0''),
      rt_b64decode_utf8 = (\<lambda>s. Inr s),
      rt_days_until = (\<lambda>sprint. Inr 3),
      rt_sample_from_llm =
        (\<lambda>msgs t m. handle_sampling_message sdk_demo settings
                       \<lparr>params_messages = msgs, params_temperature = Some t,
                        params_max_tokens = Some m\<rparr>)\<rparr>"


text \<open>
  A completion client, and an SDK whose completion call reports in its error which
  temperature and which \<open>max_tokens\<close> it was handed.
\<close>

definition groq_demo :: GroqClient where
  "groq_demo = \<lparr>GroqClient_client = 4, GroqClient_model = ''mixtral-8x7b-32768'',
                 GroqClient_max_tokens = 32768, GroqClient_temperature = 7 / 10\<rparr>"



section \<open>Properties\<close>

subsection \<open>Construction\<close>

lemma JiraClient_init_disabled:
  "\<not> truthy (jira_url settings) \<or> \<not> truthy (jira_username settings)
     \<or> \<not> truthy (jira_api_token settings)
   \<Longrightarrow> JiraClient_init sdk settings = Inr \<lparr>JiraClient_client = None\<rparr>"
  by (simp add: JiraClient_init_def)

lemma GitHubClient_init_disabled:
  "\<not> truthy (github_token settings)
   \<Longrightarrow> GitHubClient_init sdk settings = Inr \<lparr>GitHubClient_client = None\<rparr>"
  by (simp add: GitHubClient_init_def)

lemma JenkinsClient_init_disabled:
  "\<not> truthy (jenkins_url settings) \<or> \<not> truthy (jenkins_username settings)
     \<or> \<not> truthy (jenkins_token settings)
   \<Longrightarrow> JenkinsClient_init sdk settings
         = Inr \<lparr>JenkinsClient_client = None, JenkinsClient_base_url = None\<rparr>"
  by (simp add: JenkinsClient_init_def)

text \<open>
  With no credential at all, the bundle holds a disabled client for the issue tracker,
  the code host and the CI server, and nothing for the completion model.
\<close>

lemma create_api_clients_without_credentials:
  "create_api_clients sdk settings_empty
     = \<lparr>jira = Some \<lparr>JiraClient_client = None\<rparr>,
        github = Some \<lparr>GitHubClient_client = None\<rparr>,
        jenkins = Some \<lparr>JenkinsClient_client = None, JenkinsClient_base_url = None\<rparr>,
        groq = None\<rparr>"
  by (simp add: create_api_clients_def Clients_of_results_def JiraClient_init_def
      GitHubClient_init_def JenkinsClient_init_def GroqClient_init_def settings_empty_def)

text \<open>
  C2.  With the API key absent, constructing the completion client raises
  \<open>AttributeError\<close>, whatever the SDK and the other settings are: there is no disabled
  \<open>GroqClient\<close>.  The three sibling constructors return a disabled client on the same
  kind of input (the lemmas above).
\<close>

theorem GroqClient_init_missing_key_raises:
  "GroqClient_init sdk (settings\<lparr>groq_api_key := None\<rparr>)
     = Inl (PyExc AttributeError 0 (NoneType_has_no_attribute ''get_secret_value''))"
  by (simp add: GroqClient_init_def)

subsection \<open>Lifecycle\<close>

text \<open>
  C1 (counterexample).  When all four constructions succeed the bundle has four
  entries and shutdown creates three close tasks: none is for the completion client.
\<close>

theorem lifecycle_close_counterexample:
  "non_None_entries (create_api_clients sdk_demo settings_full) = 4
   \<and> length (close_tasks (create_api_clients sdk_demo settings_full)) = 3"
  by (simp add: non_None_entries_def close_tasks_def create_api_clients_def
      Clients_of_results_def JiraClient_init_def GitHubClient_init_def JenkinsClient_init_def
      GroqClient_init_def sdk_demo_def settings_full_def)

text \<open>
  C1 (amended).  Whatever the four constructions return, the bundle has exactly as many
  entries as constructions that did not fail, a slot is \<open>None\<close> exactly when its
  construction failed, and shutdown creates one close task for each of the issue-tracker,
  code-host and CI clients that was constructed, in this order, and none for the
  completion client.
\<close>

theorem lifecycle_bundle_and_close_tasks:
  "non_None_entries (Clients_of_results rj rg rk rq)
     = 4 - (failed rj + failed rg + failed rk + failed rq)
   \<and> (jira (Clients_of_results rj rg rk rq) = None) = (failed rj = 1)
   \<and> (github (Clients_of_results rj rg rk rq) = None) = (failed rg = 1)
   \<and> (jenkins (Clients_of_results rj rg rk rq) = None) = (failed rk = 1)
   \<and> (groq (Clients_of_results rj rg rk rq) = None) = (failed rq = 1)
   \<and> close_tasks (Clients_of_results rj rg rk rq)
       = (case rj of Inl e \<Rightarrow> [] | Inr c \<Rightarrow> [Close_jira c])
         @ (case rg of Inl e \<Rightarrow> [] | Inr c \<Rightarrow> [Close_github c])
         @ (case rk of Inl e \<Rightarrow> [] | Inr c \<Rightarrow> [Close_jenkins c])"
  by (cases rj; cases rg; cases rk; cases rq)
     (simp_all add: non_None_entries_def close_tasks_def Clients_of_results_def)

theorem lifecycle_bundle_and_close_tasks_witness:
  "non_None_entries (create_api_clients sdk_demo (settings_full\<lparr>groq_api_key := None\<rparr>)) = 3
   \<and> groq (create_api_clients sdk_demo (settings_full\<lparr>groq_api_key := None\<rparr>)) = None
   \<and> close_tasks (create_api_clients sdk_demo (settings_full\<lparr>groq_api_key := None\<rparr>))
       = [Close_jira \<lparr>JiraClient_client = Some 1\<rparr>,
          Close_github \<lparr>GitHubClient_client = Some 2\<rparr>,
          Close_jenkins \<lparr>JenkinsClient_client = Some 3,
                         JenkinsClient_base_url = Some ''https://ci.example''\<rparr>]"
  using lifecycle_bundle_and_close_tasks
    [of "JiraClient_init sdk_demo (settings_full\<lparr>groq_api_key := None\<rparr>)"
        "GitHubClient_init sdk_demo (settings_full\<lparr>groq_api_key := None\<rparr>)"
        "JenkinsClient_init sdk_demo (settings_full\<lparr>groq_api_key := None\<rparr>)"
        "GroqClient_init sdk_demo (settings_full\<lparr>groq_api_key := None\<rparr>)"]
  by (simp add: create_api_clients_def JiraClient_init_def GitHubClient_init_def
      JenkinsClient_init_def GroqClient_init_def sdk_demo_def settings_full_def
      rstrip_slash_def)

subsection \<open>Completion parameters\<close>




subsection \<open>The sampling callback\<close>

text \<open>
  C4.  When constructing the completion client or generating the completion raises an
  \<open>Exception\<close> \<open>e\<close>, the sampling callback returns the response whose content is
  \<open>"Error generating response: "\<close> followed by \<open>str(e)\<close> and whose \<open>finish_reason\<close> is
  \<open>"error"\<close>; and whatever happens, no \<open>Exception\<close> leaves the callback.
\<close>

theorem sampling_failure_is_error_response:
  "(isinstance_Exception e
    \<and> (GroqClient_init sdk settings = Inl e
       \<or> (\<exists>g. GroqClient_init sdk settings = Inr g
              \<and> generate_completion sdk g (groq_messages_of (params_messages params))
                    (Some (or_default (params_temperature params) (7 / 10)))
                    (Some (or_default (params_max_tokens params) 1000)) = Inl e))
    \<longrightarrow> handle_sampling_message sdk settings params
          = Inr \<lparr>response_content = ''Error generating response: '' @ exc_str e,
                 response_finish_reason = Some ''error''\<rparr>)
   \<and> (\<forall>x. handle_sampling_message sdk settings params = Inl x \<longrightarrow> \<not> isinstance_Exception x)"
proof (intro conjI impI allI)
  assume h: "isinstance_Exception e
    \<and> (GroqClient_init sdk settings = Inl e
       \<or> (\<exists>g. GroqClient_init sdk settings = Inr g
              \<and> generate_completion sdk g (groq_messages_of (params_messages params))
                    (Some (or_default (params_temperature params) (7 / 10)))
                    (Some (or_default (params_max_tokens params) 1000)) = Inl e))"
  then have "handle_sampling_message_try sdk settings params = Inl e"
    by (auto simp: handle_sampling_message_try_def)
  with h show "handle_sampling_message sdk settings params
          = Inr \<lparr>response_content = ''Error generating response: '' @ exc_str e,
                 response_finish_reason = Some ''error''\<rparr>"
    by (simp add: handle_sampling_message_def CreateMessageResponse_def)
next
  fix x
  assume "handle_sampling_message sdk settings params = Inl x"
  then show "\<not> isinstance_Exception x"
    by (cases "handle_sampling_message_try sdk settings params")
       (auto simp: handle_sampling_message_def split: if_splits)
qed

theorem sampling_failure_is_error_response_witness:
  "handle_sampling_message sdk_demo (settings_full\<lparr>groq_api_key := None\<rparr>)
     \<lparr>params_messages = [SamplingMessage ''user'' ''hello''],
      params_temperature = None, params_max_tokens = None\<rparr>
   = Inr \<lparr>response_content =
            ''Error generating response: '' @ NoneType_has_no_attribute ''get_secret_value'',
          response_finish_reason = Some ''error''\<rparr>"
  using sampling_failure_is_error_response
    [of "PyExc AttributeError 0 (NoneType_has_no_attribute ''get_secret_value'')"
        sdk_demo "settings_full\<lparr>groq_api_key := None\<rparr>"
        "\<lparr>params_messages = [SamplingMessage ''user'' ''hello''],
          params_temperature = None, params_max_tokens = None\<rparr>"]
  by (simp add: GroqClient_init_def)

lemma completion_of_response_raises:
  "completion_of_response r
     = Inl (PyExc TypeError 0
              (''object ChatCompletion can'' @ [CHR 0x27] @ ''t be used in '' @ [CHR 0x27]
               @ ''await'' @ [CHR 0x27] @ '' expression''))"
  by (simp add: completion_of_response_def await_not_awaitable_def)

text \<open>No call of \<open>generate_completion\<close> returns a text.\<close>

lemma generate_completion_never_returns:
  "\<exists>e. generate_completion sdk self msgs t m = Inl e
       \<and> (isinstance_Exception e \<or> sdk_chat_completions_create sdk (GroqClient_client self)
             (completion_kwargs self msgs t m) = Inl e)"
  by (cases "sdk_chat_completions_create sdk (GroqClient_client self)
               (completion_kwargs self msgs t m)")
     (simp_all add: generate_completion_def completion_of_response_raises)

text \<open>Every response that the sampling callback returns is an error response.\<close>

lemma handle_sampling_message_always_error:
  "handle_sampling_message sdk settings params = Inr r
   \<Longrightarrow> response_finish_reason r = Some ''error''"
proof -
  assume r: "handle_sampling_message sdk settings params = Inr r"
  show ?thesis
  proof (cases "GroqClient_init sdk settings")
    case (Inl e)
    with r show ?thesis
      by (auto simp: handle_sampling_message_def handle_sampling_message_try_def
          CreateMessageResponse_def split: if_splits)
  next
    case (Inr g)
    obtain e where "generate_completion sdk g (groq_messages_of (params_messages params))
                      (Some (or_default (params_temperature params) (7 / 10)))
                      (Some (or_default (params_max_tokens params) 1000)) = Inl e"
      using generate_completion_never_returns by blast
    with Inr r show ?thesis
      by (auto simp: handle_sampling_message_def handle_sampling_message_try_def
          CreateMessageResponse_def split: if_splits)
  qed
qed

text \<open>
  C5.  The completion client is constructed, the request is well-formed and the API
  call succeeds with the text \<open>an answer\<close>.  The sampling callback returns the response
  whose \<open>finish_reason\<close> is \<open>"error"\<close> and whose content is the text of the
  \<open>TypeError\<close> that awaiting the \<open>ChatCompletion\<close> raises; the generated text is lost.
\<close>

theorem sampling_success_is_error_response:
  "sdk_chat_completions_create sdk_demo 4
     (completion_kwargs groq_demo [(''user'', ''hello'')] (Some (7 / 10)) (Some 1000))
     = Inr [''an answer'']
   \<and> handle_sampling_message sdk_demo settings_full
       \<lparr>params_messages = [SamplingMessage ''user'' ''hello''],
        params_temperature = None, params_max_tokens = None\<rparr>
     = Inr \<lparr>response_content =
              ''Error generating response: object ChatCompletion can'' @ [CHR 0x27]
              @ ''t be used in '' @ [CHR 0x27] @ ''await'' @ [CHR 0x27] @ '' expression'',
            response_finish_reason = Some ''error''\<rparr>"
  by (simp add: handle_sampling_message_def handle_sampling_message_try_def
      GroqClient_init_def generate_completion_def completion_of_response_raises
      CreateMessageResponse_def sdk_demo_def settings_full_def)

text \<open>
  A tool that samples while the completion model has no API key receives the error
  response and returns its content as its own result.
\<close>

lemma generate_ai_insights_without_key:
  "generate_ai_insights (rt_demo settings_empty) context_info question
     = Inr (''Error generating response: '' @ NoneType_has_no_attribute ''get_secret_value'')"
  by (simp add: generate_ai_insights_def generate_ai_insights_try_def rt_demo_def
      handle_sampling_message_def handle_sampling_message_try_def GroqClient_init_def
      settings_empty_def CreateMessageResponse_def)

subsection \<open>Remote failures\<close>

text \<open>
  C3 (counterexample).  The CI server answers 500 and \<open>get_build_info\<close> on a configured
  client returns \<open>None\<close>: the handler of \<open>HTTPStatusError\<close> in \<open>_request\<close> returns
  \<open>None\<close> for every status that \<open>raise_for_status\<close> rejects.
\<close>

theorem remote_error_counterexample:
  "JenkinsClient_get_build_info (sdk_status 500) jenkins_demo ''deploy'' ''7'' = Inr None"
  by (simp add: JenkinsClient_get_build_info_def JenkinsClient_request_def sdk_status_def
      sdk_demo_def jenkins_demo_def raise_for_status_def request_except_def)

text \<open>
  C3 (amended).  On a configured client, the issue-tracker and code-host operations
  raise every failure of the remote call unchanged, a 404 alone excepted in
  \<open>get_sprint\<close>, \<open>get_repo\<close> and \<open>get_content\<close>.  The CI client raises a network failure
  as \<open>ConnectionError\<close>, raises any other exception of the request unchanged, raises
  the exception of decoding the payload of an answer with a status from 200 to 299
  unchanged, and returns \<open>None\<close> for every answer with a status outside 200 to 299.
\<close>

theorem remote_errors_propagate:
  "(JiraClient_client jc = Some h
      \<and> sdk_search_issues sdk h
            (''project = '' @ [CHR 0x22] @ project_key @ [CHR 0x22] @ '' AND sprint = '' @ sid)
          = Inl e
      \<longrightarrow> JiraClient_get_sprint_tasks sdk jc project_key sid = Inl e)
   \<and> (JiraClient_client jc = Some h \<and> sdk_sprint sdk h n = Inl e
      \<and> \<not> (exc_class e = JIRAError \<and> status_code e = 404)
      \<longrightarrow> JiraClient_get_sprint sdk jc n = Inl e)
   \<and> (JiraClient_client jc = Some h \<and> sdk_sprints sdk h 1 limit = Inl e
      \<longrightarrow> JiraClient_get_completed_sprints sdk jc project_key limit = Inl e)
   \<and> (GitHubClient_client gc = Some g \<and> sdk_get_repo sdk g (owner @ ''/'' @ repo_name) = Inl e
      \<and> \<not> (exc_class e = GithubException \<and> status_code e = 404)
      \<longrightarrow> GitHubClient_get_repo sdk gc owner repo_name = Inl e
          \<and> GitHubClient_get_content sdk gc owner repo_name path = Inl e)
   \<and> (GitHubClient_client gc = Some g \<and> sdk_get_repo sdk g (owner @ ''/'' @ repo_name) = Inr r
      \<and> sdk_get_contents sdk r path = Inl e
      \<and> \<not> (exc_class e = GithubException \<and> status_code e = 404)
      \<longrightarrow> GitHubClient_get_content sdk gc owner repo_name path = Inl e)
   \<and> (JenkinsClient_client kc = Some k
      \<and> sdk_request sdk k method (endpoint @ ''/api/json'') = Inl e
      \<and> exc_class e = RequestError
      \<longrightarrow> JenkinsClient_request sdk kc method endpoint
          = Inl (PyExc ConnectionError 0 (''Could not connect to Jenkins: '' @ exc_str e)))
   \<and> (JenkinsClient_client kc = Some k
      \<and> sdk_request sdk k method (endpoint @ ''/api/json'') = Inl e
      \<and> exc_class e \<noteq> RequestError \<and> exc_class e \<noteq> HTTPStatusError
      \<longrightarrow> JenkinsClient_request sdk kc method endpoint = Inl e)
   \<and> (JenkinsClient_client kc = Some k
      \<and> sdk_request sdk k method (endpoint @ ''/api/json'') = Inr resp
      \<and> 200 \<le> resp_status_code resp \<and> resp_status_code resp < 300
      \<and> resp_json resp = Inl e
      \<and> exc_class e \<noteq> RequestError \<and> exc_class e \<noteq> HTTPStatusError
      \<longrightarrow> JenkinsClient_request sdk kc method endpoint = Inl e)
   \<and> (JenkinsClient_client kc = Some k
      \<and> sdk_request sdk k method (endpoint @ ''/api/json'') = Inr resp
      \<and> \<not> (200 \<le> resp_status_code resp \<and> resp_status_code resp < 300)
      \<longrightarrow> JenkinsClient_request sdk kc method endpoint = Inr None)"
  by (auto simp: JiraClient_get_sprint_tasks_def JiraClient_get_sprint_def
      JiraClient_get_completed_sprints_def JiraClient_run_sync_def
      GitHubClient_get_repo_def GitHubClient_get_content_def GitHubClient_run_sync_def
      JenkinsClient_request_def raise_for_status_def request_except_def HTTP_NOT_FOUND_def)

theorem remote_errors_propagate_witness:
  "JiraClient_get_sprint_tasks (sdk_status 500) jira_demo ''TEST'' ''1''
     = Inl (PyExc JIRAError 500 ''remote error'')
   \<and> JiraClient_get_sprint (sdk_status 500) jira_demo 1
     = Inl (PyExc JIRAError 500 ''remote error'')
   \<and> JiraClient_get_completed_sprints (sdk_status 500) jira_demo ''TEST'' 3
     = Inl (PyExc JIRAError 500 ''remote error'')
   \<and> GitHubClient_get_content (sdk_status 500) github_demo ''owner'' ''repo'' ''a.py''
     = Inl (PyExc GithubException 500 ''remote error'')
   \<and> JenkinsClient_request (sdk_status 500) jenkins_demo ''GET'' ''/job/deploy'' = Inr None
   \<and> JenkinsClient_request (sdk_status 302) jenkins_demo ''GET'' ''/job/deploy'' = Inr None"
  using remote_errors_propagate
    [of jira_demo 1 "sdk_status 500" "''TEST''" "''1''" "PyExc JIRAError 500 ''remote error''"
        1 3 github_demo 2 "''owner''" "''repo''" "''a.py''" 20 jenkins_demo 3 "''GET''"
        "''/job/deploy''" "\<lparr>resp_status_code = 500, resp_json = Inr []\<rparr>"]
    remote_errors_propagate
    [of jira_demo 1 "sdk_status 500" "''TEST''" "''1''"
        "PyExc GithubException 500 ''remote error''"
        1 3 github_demo 2 "''owner''" "''repo''" "''a.py''" 20 jenkins_demo 3 "''GET''"
        "''/job/deploy''" "\<lparr>resp_status_code = 500, resp_json = Inr []\<rparr>"]
    remote_errors_propagate
    [of jira_demo 1 "sdk_status 302" "''TEST''" "''1''"
        "PyExc JIRAError 302 ''remote error''"
        1 3 github_demo 2 "''owner''" "''repo''" "''a.py''" 20 jenkins_demo 3 "''GET''"
        "''/job/deploy''" "\<lparr>resp_status_code = 302, resp_json = Inr []\<rparr>"]
  by (simp add: sdk_status_def sdk_demo_def jira_demo_def github_demo_def jenkins_demo_def)

subsection \<open>Not found\<close>

text \<open>
  C7 (counterexample).  The issue tracker answers 404 and the list operations
  \<open>get_completed_sprints\<close> and \<open>get_sprint_tasks\<close> on a configured client raise the
  \<open>JIRAError\<close>; they return no empty list.
\<close>

theorem not_found_counterexample:
  "JiraClient_get_completed_sprints (sdk_status 404) jira_demo ''TEST'' 3
     = Inl (PyExc JIRAError 404 ''remote error'')
   \<and> JiraClient_get_sprint_tasks (sdk_status 404) jira_demo ''TEST'' ''1''
     = Inl (PyExc JIRAError 404 ''remote error'')"
  by (simp add: JiraClient_get_completed_sprints_def JiraClient_get_sprint_tasks_def
      JiraClient_run_sync_def sdk_status_def sdk_demo_def jira_demo_def)

text \<open>
  C7 (amended).  On a configured client and a remote that answers 404, the operations
  that fetch one object return \<open>None\<close> and do not raise: \<open>get_sprint\<close>, \<open>get_repo\<close>,
  \<open>get_content\<close> (for a missing repository and for a missing path), \<open>get_job_info\<close> and
  \<open>get_build_info\<close>.  The list operations \<open>get_sprint_tasks\<close> and
  \<open>get_completed_sprints\<close> raise the 404 error.
\<close>

theorem not_found_is_None:
  "(JiraClient_client jc = Some h \<and> sdk_sprint sdk h n = Inl e
      \<and> exc_class e = JIRAError \<and> status_code e = 404
      \<longrightarrow> JiraClient_get_sprint sdk jc n = Inr None)
   \<and> (GitHubClient_client gc = Some g \<and> sdk_get_repo sdk g (owner @ ''/'' @ repo_name) = Inl e
      \<and> exc_class e = GithubException \<and> status_code e = 404
      \<longrightarrow> GitHubClient_get_repo sdk gc owner repo_name = Inr None
          \<and> GitHubClient_get_content sdk gc owner repo_name path = Inr None)
   \<and> (GitHubClient_client gc = Some g \<and> sdk_get_repo sdk g (owner @ ''/'' @ repo_name) = Inr r
      \<and> sdk_get_contents sdk r path = Inl e
      \<and> exc_class e = GithubException \<and> status_code e = 404
      \<longrightarrow> GitHubClient_get_content sdk gc owner repo_name path = Inr None)
   \<and> (JenkinsClient_client kc = Some k
      \<and> sdk_request sdk k ''GET'' (''/job/'' @ job_name @ ''/api/json'') = Inr resp
      \<and> resp_status_code resp = 404
      \<longrightarrow> JenkinsClient_get_job_info sdk kc job_name = Inr None)
   \<and> (JenkinsClient_client kc = Some k
      \<and> sdk_request sdk k ''GET'' (''/job/'' @ job_name @ ''/'' @ build_number @ ''/api/json'')
          = Inr resp
      \<and> resp_status_code resp = 404
      \<longrightarrow> JenkinsClient_get_build_info sdk kc job_name build_number = Inr None)
   \<and> (JiraClient_client jc = Some h
      \<and> sdk_search_issues sdk h
            (''project = '' @ [CHR 0x22] @ project_key @ [CHR 0x22] @ '' AND sprint = '' @ sid)
          = Inl e
      \<and> exc_class e = JIRAError \<and> status_code e = 404
      \<longrightarrow> JiraClient_get_sprint_tasks sdk jc project_key sid = Inl e)
   \<and> (JiraClient_client jc = Some h \<and> sdk_sprints sdk h 1 limit = Inl e
      \<and> exc_class e = JIRAError \<and> status_code e = 404
      \<longrightarrow> JiraClient_get_completed_sprints sdk jc project_key limit = Inl e)"
  by (auto simp: JiraClient_get_sprint_tasks_def JiraClient_get_sprint_def
      JiraClient_get_completed_sprints_def JiraClient_run_sync_def
      GitHubClient_get_repo_def GitHubClient_get_content_def GitHubClient_run_sync_def
      JenkinsClient_get_job_info_def JenkinsClient_get_build_info_def
      JenkinsClient_request_def raise_for_status_def request_except_def HTTP_NOT_FOUND_def)

theorem not_found_is_None_witness:
  "JiraClient_get_sprint (sdk_status 404) jira_demo 1 = Inr None
   \<and> GitHubClient_get_repo (sdk_status 404) github_demo ''owner'' ''repo'' = Inr None
   \<and> GitHubClient_get_content (sdk_status 404) github_demo ''owner'' ''repo'' ''missing.py''
       = Inr None
   \<and> JenkinsClient_get_job_info (sdk_status 404) jenkins_demo ''deploy'' = Inr None
   \<and> JenkinsClient_get_build_info (sdk_status 404) jenkins_demo ''deploy'' ''7'' = Inr None
   \<and> JiraClient_get_completed_sprints (sdk_status 404) jira_demo ''TEST'' 3
       = Inl (PyExc JIRAError 404 ''remote error'')"
  using not_found_is_None
    [of jira_demo 1 "sdk_status 404" 1 "PyExc JIRAError 404 ''remote error''"
        github_demo 2 "''owner''" "''repo''" "''missing.py''" 20 jenkins_demo 3 "''deploy''"
        "\<lparr>resp_status_code = 404, resp_json = Inr []\<rparr>" "''7''" "''TEST''" "''1''" 3]
    not_found_is_None
    [of jira_demo 1 "sdk_status 404" 1 "PyExc GithubException 404 ''remote error''"
        github_demo 2 "''owner''" "''repo''" "''missing.py''" 20 jenkins_demo 3 "''deploy''"
        "\<lparr>resp_status_code = 404, resp_json = Inr []\<rparr>" "''7''" "''TEST''" "''1''" 3]
  by (simp add: sdk_status_def sdk_demo_def jira_demo_def github_demo_def jenkins_demo_def)

subsection \<open>Closing twice\<close>

lemma noop_when_closed_lenient_close: "noop_when_closed lenient_close h w"
  by (simp add: noop_when_closed_def lenient_close_def)

lemma quiet_when_closed_lenient_close: "quiet_when_closed lenient_close h w"
  by (simp add: quiet_when_closed_def lenient_close_def)


lemma twice_JenkinsClient_close:
  "(\<And>k. JenkinsClient_client kc = Some k \<Longrightarrow> noop_when_closed aclose k w)
   \<Longrightarrow> twice (JenkinsClient_close aclose kc) w = JenkinsClient_close aclose kc w"
  by (cases "JenkinsClient_client kc")
     (auto simp: twice_def JenkinsClient_close_def noop_when_closed_def
       split: option.splits prod.splits)

lemma twice_JiraClient_close:
  "(\<And>j. JiraClient_client jc = Some j \<Longrightarrow> quiet_when_closed jclose j w)
   \<Longrightarrow> twice (JiraClient_close jclose jc) w = JiraClient_close jclose jc w"
  by (cases "JiraClient_client jc")
     (auto simp: twice_def JiraClient_close_def quiet_when_closed_def
       split: option.splits prod.splits if_splits)

text \<open>
  Over an SDK close that returns at once on a closed connection, closing twice is closing
  once for every client, enabled or disabled, and every state of the connections.
\<close>

lemma close_twice_lenient_close:
  "twice (JenkinsClient_close lenient_close kc) w = JenkinsClient_close lenient_close kc w
   \<and> twice (JiraClient_close lenient_close jc) w = JiraClient_close lenient_close jc w
   \<and> twice (GitHubClient_close gc) w = GitHubClient_close gc w"
  by (simp add: twice_JenkinsClient_close twice_JiraClient_close
      noop_when_closed_lenient_close quiet_when_closed_lenient_close)
     (simp add: twice_def GitHubClient_close_def)



subsection \<open>The sprint report\<close>

lemma str_int_1: "str_int 1 = ''1''"
  by (simp add: str_int_def str_nat.simps digit_char_def)

lemma spec_tasks_invalid:
  "check_float_format_spec ''.1f if total_tasks > 0 else 0''
     = Some (PyExc ValueError 0 ''Invalid format specifier'')"
  by (simp add: check_float_format_spec_def is_align_def is_digit_def)

lemma spec_points_invalid:
  "check_float_format_spec ''.1f if total_points > 0 else 0''
     = Some (PyExc ValueError 0 ''Invalid format specifier'')"
  by (simp add: check_float_format_spec_def is_align_def is_digit_def)

lemma format_percent_tasks_raises:
  "\<exists>e. format_percent rt a b ''.1f if total_tasks > 0 else 0'' = Inl e
       \<and> isinstance_Exception e"
  by (simp add: format_percent_def py_truediv_def py_format_def spec_tasks_invalid)

text \<open>
  C6.  In the end-to-end scenario (project \<open>TEST\<close>, sprint 1, two tasks done with 3
  and 5 points, one in progress with 2 points) the tool returns the text
  \<open>Error generating report: Invalid format specifier\<close> and no report, whatever
  \<open>format\<close> renders under a valid specification; with a sprint that has no task it
  returns \<open>Error generating report: division by zero\<close>.
\<close>

theorem sprint_report_scenario_is_error:
  "generate_sprint_report rt sdk_demo (create_api_clients sdk_demo settings_full) ''TEST'' 1
     = Inr ''Error generating report: Invalid format specifier''
   \<and> generate_sprint_report rt (sdk_demo\<lparr>sdk_search_issues := (\<lambda>h jql. Inr [])\<rparr>)
       (create_api_clients sdk_demo settings_full) ''TEST'' 1
     = Inr ''Error generating report: division by zero''"
  by (simp add: generate_sprint_report_def generate_sprint_report_try_def
      get_sprint_tasks_def get_sprint_tasks_try_def JiraClient_get_sprint_tasks_def
      JiraClient_run_sync_def create_api_clients_def Clients_of_results_def
      JiraClient_init_def sdk_demo_def settings_full_def demo_issues_def task_row_of_def
      format_percent_def py_truediv_def py_format_def spec_tasks_invalid str_int_1)

text \<open>No input makes the tool return a report: every text it returns is an error text.\<close>

lemma generate_sprint_report_never_reports:
  "generate_sprint_report rt sdk ctx project_key sprint_id = Inr s
   \<Longrightarrow> \<exists>m. s = ''Error generating report: '' @ m"
proof -
  assume r: "generate_sprint_report rt sdk ctx project_key sprint_id = Inr s"
  show ?thesis
  proof (cases "get_sprint_tasks sdk ctx project_key (str_int sprint_id)")
    case (Inl e)
    with r show ?thesis
      by (auto simp: generate_sprint_report_def generate_sprint_report_try_def
          split: if_splits)
  next
    case (Inr doc)
    show ?thesis
    proof (cases doc)
      case (Tasks_error err)
      with Inr r show ?thesis
        by (auto simp: generate_sprint_report_def generate_sprint_report_try_def)
    next
      case (Tasks_doc n tasks)
      obtain e where
        e: "format_percent rt (int (length (filter (\<lambda>task. task_status task = ''Done'') tasks)))
              (int (length tasks)) ''.1f if total_tasks > 0 else 0'' = Inl e"
          "isinstance_Exception e"
        using format_percent_tasks_raises by blast
      with Inr Tasks_doc r show ?thesis
        by (auto simp: generate_sprint_report_def generate_sprint_report_try_def Let_def)
    qed
  qed
qed

subsection \<open>Handlers\<close>





end
